theory Spec2Isabelle
  imports Main "HOL-Library.Multiset"
begin

section \<open>Data model\<close>

text \<open>
  Timestamps (\<open>Date\<close>, \<open>TIMESTAMP WITH TIME ZONE\<close>, \<open>Date.now()\<close>, \<open>NOW()\<close>) are
  milliseconds on one clock. A request handler is given the clock value \<open>now\<close> once and
  uses it for every \<open>NOW()\<close> and \<open>Date.now()\<close> it evaluates. Strings are lists of
  8-bit code units.
\<close>

type_synonym time = nat

text \<open>\<open>interface User\<close> and the rows of table \<open>users\<close>.\<close>

record user =
  u_id :: nat
  u_email :: string
  password_hash :: string
  u_created_at :: time
  u_updated_at :: time

text \<open>\<open>interface RefreshToken\<close> and the rows of table \<open>refresh_tokens\<close>;
  \<open>revoked_at\<close> is nullable.\<close>

record refresh_token =
  rt_id :: nat
  rt_user_id :: nat
  token_hash :: string
  expires_at :: time
  rt_created_at :: time
  revoked_at :: "time option"

text \<open>
  The database behind \<open>pool\<close>: both tables in insertion order and the next value of each
  \<open>SERIAL\<close> sequence. Every query is answered; a \<open>SELECT\<close> without \<open>ORDER BY\<close> returns
  its rows in table order.
\<close>

record db =
  users :: "user list"
  users_id_seq :: nat
  refresh_tokens :: "refresh_token list"
  refresh_tokens_id_seq :: nat

definition empty_db :: db where
  "empty_db = \<lparr>users = [], users_id_seq = 1, refresh_tokens = [], refresh_tokens_id_seq = 1\<rparr>"

text \<open>\<open>result.rows[0] || null\<close>\<close>

definition first_row :: "'a list \<Rightarrow> 'a option" where
  "first_row rows = (case rows of [] \<Rightarrow> None | r # _ \<Rightarrow> Some r)"

section \<open>UserModel\<close>

definition UserModel_create :: "time \<Rightarrow> string \<Rightarrow> string \<Rightarrow> db \<Rightarrow> user \<times> db" where
  "UserModel_create now email passwordHash d =
     (let row = \<lparr>u_id = users_id_seq d, u_email = email, password_hash = passwordHash,
                 u_created_at = now, u_updated_at = now\<rparr>
      in (row, d\<lparr>users := users d @ [row], users_id_seq := Suc (users_id_seq d)\<rparr>))"

definition findByEmail :: "string \<Rightarrow> db \<Rightarrow> user option" where
  "findByEmail email d = first_row (filter (\<lambda>u. u_email u = email) (users d))"

definition findById :: "nat \<Rightarrow> db \<Rightarrow> user option" where
  "findById i d = first_row (filter (\<lambda>u. u_id u = i) (users d))"

text \<open>
  \<open>DELETE FROM users WHERE id = $1\<close>. The records of the account go with it:
  \<open>user_id INTEGER NOT NULL REFERENCES users(id) ON DELETE CASCADE\<close>.
\<close>

definition UserModel_delete :: "nat \<Rightarrow> db \<Rightarrow> db" where
  "UserModel_delete i d =
     d\<lparr>users := filter (\<lambda>u. u_id u \<noteq> i) (users d),
       refresh_tokens := filter (\<lambda>r. rt_user_id r \<noteq> i) (refresh_tokens d)\<rparr>"

text \<open>The foreign key of \<open>refresh_tokens\<close>: every record belongs to an account of the
  table \<open>users\<close>.\<close>

definition foreign_key_ok :: "db \<Rightarrow> bool" where
  "foreign_key_ok d =
     list_all (\<lambda>r. list_ex (\<lambda>u. u_id u = rt_user_id r) (users d)) (refresh_tokens d)"

section \<open>RefreshTokenModel\<close>

definition RefreshTokenModel_create ::
  "time \<Rightarrow> nat \<Rightarrow> string \<Rightarrow> time \<Rightarrow> db \<Rightarrow> refresh_token \<times> db" where
  "RefreshTokenModel_create now userId tokenHash expiresAt d =
     (let row = \<lparr>rt_id = refresh_tokens_id_seq d, rt_user_id = userId, token_hash = tokenHash,
                 expires_at = expiresAt, rt_created_at = now, revoked_at = None\<rparr>
      in (row, d\<lparr>refresh_tokens := refresh_tokens d @ [row],
                refresh_tokens_id_seq := Suc (refresh_tokens_id_seq d)\<rparr>))"

text \<open>\<open>WHERE token_hash = $1 AND revoked_at IS NULL AND expires_at > NOW()\<close>\<close>

definition findByTokenHash :: "time \<Rightarrow> string \<Rightarrow> db \<Rightarrow> refresh_token option" where
  "findByTokenHash now tokenHash d =
     first_row (filter (\<lambda>r. token_hash r = tokenHash \<and> revoked_at r = None \<and> now < expires_at r)
                       (refresh_tokens d))"

text \<open>\<open>UPDATE refresh_tokens SET revoked_at = NOW() WHERE id = $1\<close>\<close>

definition revoke :: "time \<Rightarrow> nat \<Rightarrow> db \<Rightarrow> db" where
  "revoke now i d =
     d\<lparr>refresh_tokens :=
         map (\<lambda>r. if rt_id r = i then r\<lparr>revoked_at := Some now\<rparr> else r) (refresh_tokens d)\<rparr>"

text \<open>\<open>UPDATE ... SET revoked_at = NOW() WHERE user_id = $1 AND revoked_at IS NULL\<close>\<close>

definition revokeAllForUser :: "time \<Rightarrow> nat \<Rightarrow> db \<Rightarrow> db" where
  "revokeAllForUser now userId d =
     d\<lparr>refresh_tokens :=
         map (\<lambda>r. if rt_user_id r = userId \<and> revoked_at r = None
                  then r\<lparr>revoked_at := Some now\<rparr> else r) (refresh_tokens d)\<rparr>"

text \<open>
  \<open>WHERE user_id = $1 AND revoked_at IS NULL AND expires_at > NOW() ORDER BY created_at DESC\<close>.
  The order of rows with equal \<open>created_at\<close> is left open by SQL; the model takes the
  reverse of a stable ascending sort.
\<close>

definition findActiveByUserId :: "time \<Rightarrow> nat \<Rightarrow> db \<Rightarrow> refresh_token list" where
  "findActiveByUserId now userId d =
     rev (sort_key rt_created_at
            (filter (\<lambda>r. rt_user_id r = userId \<and> revoked_at r = None \<and> now < expires_at r)
                    (refresh_tokens d)))"

text \<open>\<open>DELETE FROM refresh_tokens WHERE expires_at < NOW() OR revoked_at IS NOT NULL\<close>,
  returning the number of rows deleted.\<close>

definition cleanupExpired :: "time \<Rightarrow> db \<Rightarrow> nat \<times> db" where
  "cleanupExpired now d =
     (let gone = (\<lambda>r. expires_at r < now \<or> revoked_at r \<noteq> None)
      in (length (filter gone (refresh_tokens d)),
          d\<lparr>refresh_tokens := filter (\<lambda>r. \<not> gone r) (refresh_tokens d)\<rparr>))"

text \<open>\<open>UPDATE ... SET revoked_at = NOW() WHERE token_hash = $1 AND revoked_at IS NULL
  RETURNING id\<close>; the result is \<open>rowCount > 0\<close>.\<close>

definition revokeByTokenHash :: "time \<Rightarrow> string \<Rightarrow> db \<Rightarrow> bool \<times> db" where
  "revokeByTokenHash now tokenHash d =
     (let hit = (\<lambda>r. token_hash r = tokenHash \<and> revoked_at r = None)
      in (0 < length (filter hit (refresh_tokens d)),
          d\<lparr>refresh_tokens :=
              map (\<lambda>r. if hit r then r\<lparr>revoked_at := Some now\<rparr> else r) (refresh_tokens d)\<rparr>))"

section \<open>Libraries and configuration\<close>

text \<open>A call that either returns a value or throws (a rejected promise included).\<close>

datatype 'a outcome = Returns 'a | Throws

text \<open>\<open>interface JWTPayload\<close>\<close>

record jwt_payload =
  userId :: nat
  email :: string
  iat :: "nat option"
  exp :: "nat option"

text \<open>The option objects handed to \<open>jwt.sign\<close> and \<open>jwt.verify\<close>.\<close>

record sign_options =
  expiresIn :: string
  issuer :: string
  audience :: string

record verify_options =
  v_issuer :: string
  v_audience :: string

text \<open>
  The npm packages the code calls are parameters of the model: \<open>argon2\<close> (the salt that
  \<open>argon2.hash\<close> draws is its second argument), \<open>jsonwebtoken\<close> (the clock it reads is
  its last argument), \<open>crypto\<close>'s SHA-256 with hex digest, and the validation of a request
  body against the three Joi schemas of the controller, which yields the messages of
  \<open>error.details\<close> or nothing when the body is valid.
\<close>

record lib =
  argon2_hash :: "string \<Rightarrow> string \<Rightarrow> string outcome"
  argon2_verify :: "string \<Rightarrow> string \<Rightarrow> bool outcome"
  jwt_sign :: "jwt_payload \<Rightarrow> string \<Rightarrow> sign_options \<Rightarrow> time \<Rightarrow> string outcome"
  jwt_verify :: "string \<Rightarrow> string \<Rightarrow> verify_options \<Rightarrow> time \<Rightarrow> jwt_payload outcome"
  sha256_hex :: "string \<Rightarrow> string"
  registerSchema :: "string \<Rightarrow> string \<Rightarrow> string list option"
  loginSchema :: "string \<Rightarrow> string \<Rightarrow> string list option"
  refreshSchema :: "string \<Rightarrow> string list option"

text \<open>The module constants of \<open>utils/auth\<close>, read from \<open>process.env\<close> when the module
  is loaded: \<open>process.env.X || fallback\<close> takes the fallback for an unset or empty
  variable.\<close>

record cfg =
  JWT_SECRET :: string
  REFRESH_TOKEN_SECRET :: string
  JWT_EXPIRES_IN :: string
  REFRESH_TOKEN_EXPIRES_IN :: string

definition env_or :: "string option \<Rightarrow> string \<Rightarrow> string" where
  "env_or v fallback = (case v of None \<Rightarrow> fallback | Some s \<Rightarrow> if s = [] then fallback else s)"

definition load_cfg :: "(string \<Rightarrow> string option) \<Rightarrow> cfg" where
  "load_cfg env =
     \<lparr>JWT_SECRET = env_or (env ''JWT_SECRET'') ''fallback-secret-change-this'',
      REFRESH_TOKEN_SECRET =
        env_or (env ''REFRESH_TOKEN_SECRET'') ''fallback-refresh-secret-change-this'',
      JWT_EXPIRES_IN = env_or (env ''JWT_EXPIRES_IN'') ''15m'',
      REFRESH_TOKEN_EXPIRES_IN = env_or (env ''REFRESH_TOKEN_EXPIRES_IN'') ''7d''\<rparr>"

section \<open>utils/auth\<close>

definition hashPassword :: "lib \<Rightarrow> string \<Rightarrow> string \<Rightarrow> string outcome" where
  "hashPassword l password salt = argon2_hash l password salt"

text \<open>\<open>try { return await argon2.verify(hash, password) } catch { return false }\<close>\<close>

definition verifyPassword :: "lib \<Rightarrow> string \<Rightarrow> string \<Rightarrow> bool outcome" where
  "verifyPassword l hash password =
     (case argon2_verify l hash password of
        Returns b \<Rightarrow> Returns b
      | Throws \<Rightarrow> Returns False)"

definition generateAccessToken :: "lib \<Rightarrow> cfg \<Rightarrow> time \<Rightarrow> jwt_payload \<Rightarrow> string outcome" where
  "generateAccessToken l c now payload =
     jwt_sign l payload (JWT_SECRET c)
       \<lparr>expiresIn = JWT_EXPIRES_IN c, issuer = ''habit-tracker'',
        audience = ''habit-tracker-users''\<rparr> now"

text \<open>\<open>try { return jwt.verify(...) } catch { return null }\<close>\<close>

definition verifyAccessToken ::
  "lib \<Rightarrow> cfg \<Rightarrow> time \<Rightarrow> string \<Rightarrow> jwt_payload option outcome" where
  "verifyAccessToken l c now token =
     (case jwt_verify l token (JWT_SECRET c)
             \<lparr>v_issuer = ''habit-tracker'', v_audience = ''habit-tracker-users''\<rparr> now of
        Returns payload \<Rightarrow> Returns (Some payload)
      | Throws \<Rightarrow> Returns None)"

text \<open>\<open>generateRefreshToken\<close> returns \<open>crypto.randomBytes(64).toString('hex')\<close>; the
  handlers below receive that string as their argument \<open>rnd\<close>.\<close>

definition hashRefreshToken :: "lib \<Rightarrow> string \<Rightarrow> string" where
  "hashRefreshToken l token = sha256_hex l token"

definition is_digit :: "char \<Rightarrow> bool" where
  "is_digit ch = (48 \<le> (of_char ch :: nat) \<and> (of_char ch :: nat) \<le> 57)"

text \<open>\<open>parseInt\<close> of a string of decimal digits, as an unbounded natural number (a
  JavaScript number is exact up to \<open>2^53\<close>).\<close>

definition parseInt :: "string \<Rightarrow> nat" where
  "parseInt ds = foldl (\<lambda>n ch. 10 * n + ((of_char ch :: nat) - 48)) 0 ds"

text \<open>\<open>expiry.match(/^(\d+)([smhd])$/)\<close>: one or more digits, then one unit letter.\<close>

definition parseExpiry :: "string \<Rightarrow> nat outcome" where
  "parseExpiry expiry =
     (if expiry = [] then Throws
      else let ds = butlast expiry; unit = last expiry in
        if ds = [] \<or> \<not> list_all is_digit ds then Throws
        else let v = parseInt ds in
          if unit = CHR ''s'' then Returns (v * 1000)
          else if unit = CHR ''m'' then Returns (v * 60 * 1000)
          else if unit = CHR ''h'' then Returns (v * 60 * 60 * 1000)
          else if unit = CHR ''d'' then Returns (v * 24 * 60 * 60 * 1000)
          else Throws)"

definition getRefreshTokenExpiry :: "cfg \<Rightarrow> time \<Rightarrow> time outcome" where
  "getRefreshTokenExpiry c now =
     (case parseExpiry (REFRESH_TOKEN_EXPIRES_IN c) of
        Throws \<Rightarrow> Throws
      | Returns expiryMs \<Rightarrow> Returns (now + expiryMs))"

text \<open>The class \<open>\s\<close> on 8-bit code units: tab, line feed, vertical tab, form feed,
  carriage return, space and no-break space.\<close>

definition is_space :: "char \<Rightarrow> bool" where
  "is_space ch = ((of_char ch :: nat) \<in> {9, 10, 11, 12, 13, 32, 160})"

text \<open>The class \<open>[^\s@]\<close>.\<close>

definition email_atom :: "char \<Rightarrow> bool" where
  "email_atom ch = (\<not> is_space ch \<and> ch \<noteq> CHR ''@'')"

text \<open>
  \<open>/^[^\s@]+@[^\s@]+\.[^\s@]+$/.test(email)\<close>. The first \<open>@\<close> of the string is the
  literal one; before it stands a nonempty run of class characters, after it only class
  characters, with a dot that is neither the first nor the last of them.
\<close>

definition validateEmail :: "string \<Rightarrow> bool" where
  "validateEmail e =
     (let local_part = takeWhile email_atom e; rest = dropWhile email_atom e in
      local_part \<noteq> [] \<and>
      (case rest of
         [] \<Rightarrow> False
       | sep # host \<Rightarrow> sep = CHR ''@'' \<and> list_all email_atom host \<and>
                      CHR ''.'' \<in> set (butlast (tl host))))"

definition is_upper :: "char \<Rightarrow> bool" where
  "is_upper ch = (65 \<le> (of_char ch :: nat) \<and> (of_char ch :: nat) \<le> 90)"

definition is_lower :: "char \<Rightarrow> bool" where
  "is_lower ch = (97 \<le> (of_char ch :: nat) \<and> (of_char ch :: nat) \<le> 122)"

text \<open>\<open>validatePassword\<close> returns \<open>{valid, errors}\<close>; \<open>valid\<close> is \<open>errors.length === 0\<close>.\<close>

definition validatePassword :: "string \<Rightarrow> bool \<times> string list" where
  "validatePassword password =
     (let errors =
        (if length password < 8 then [''Password must be at least 8 characters long''] else []) @
        (if \<not> list_ex is_upper password
         then [''Password must contain at least one uppercase letter''] else []) @
        (if \<not> list_ex is_lower password
         then [''Password must contain at least one lowercase letter''] else []) @
        (if \<not> list_ex is_digit password
         then [''Password must contain at least one number''] else [])
      in (errors = [], errors))"

section \<open>HTTP responses\<close>

text \<open>An element of the \<open>sessions\<close> array built by \<open>getSessions\<close>.\<close>

record session =
  s_id :: nat
  createdAt :: time
  expiresAt :: time

text \<open>
  The JSON bodies the handlers send: \<open>{error, code, details?}\<close>,
  \<open>{message, accessToken, refreshToken, user: {id, email}}\<close>, \<open>{message}\<close> and
  \<open>{sessions, total}\<close>.
\<close>

datatype json_body =
    ErrorBody string string "string list option"
  | AuthBody string string string nat string
  | MessageBody string
  | SessionsBody "session list" nat

record response =
  status :: nat
  body :: json_body

definition json_error :: "nat \<Rightarrow> string \<Rightarrow> string \<Rightarrow> response" where
  "json_error st msg cd = \<lparr>status = st, body = ErrorBody msg cd None\<rparr>"

definition internal_error :: response where
  "internal_error = json_error 500 ''Internal server error'' ''INTERNAL_ERROR''"

text \<open>The \<open>code\<close> field of an error body.\<close>

definition code_of :: "response \<Rightarrow> string option" where
  "code_of r = (case body r of ErrorBody msg cd details \<Rightarrow> Some cd | _ \<Rightarrow> None)"

section \<open>middleware/auth\<close>

text \<open>\<open>req.user\<close>: id and email.\<close>

type_synonym req_user = "nat \<times> string"

definition startsWith :: "string \<Rightarrow> string \<Rightarrow> bool" where
  "startsWith s p = (take (length p) s = p)"

text \<open>The middleware either calls \<open>next()\<close> with \<open>req.user\<close> set or sends a response.\<close>

datatype auth_result = Next req_user | Rejected response

definition requireAuth :: "lib \<Rightarrow> cfg \<Rightarrow> time \<Rightarrow> string option \<Rightarrow> db \<Rightarrow> auth_result" where
  "requireAuth l c now authHeader d =
     (case authHeader of
        None \<Rightarrow> Rejected (json_error 401 ''Access token required'' ''MISSING_TOKEN'')
      | Some h \<Rightarrow>
          if h = [] \<or> \<not> startsWith h ''Bearer ''
          then Rejected (json_error 401 ''Access token required'' ''MISSING_TOKEN'')
          else (case verifyAccessToken l c now (drop 7 h) of
                  Throws \<Rightarrow> Rejected (json_error 500 ''Authentication error'' ''AUTH_ERROR'')
                | Returns None \<Rightarrow>
                    Rejected (json_error 401 ''Invalid or expired token'' ''INVALID_TOKEN'')
                | Returns (Some payload) \<Rightarrow>
                    (case findById (userId payload) d of
                       None \<Rightarrow> Rejected (json_error 401 ''User not found'' ''USER_NOT_FOUND'')
                     | Some u \<Rightarrow> Next (u_id u, u_email u))))"

text \<open>\<open>optionalAuth\<close> always calls \<open>next()\<close>; the result is \<open>req.user\<close>.\<close>

definition optionalAuth :: "lib \<Rightarrow> cfg \<Rightarrow> time \<Rightarrow> string option \<Rightarrow> db \<Rightarrow> req_user option" where
  "optionalAuth l c now authHeader d =
     (case authHeader of
        None \<Rightarrow> None
      | Some h \<Rightarrow>
          if h = [] \<or> \<not> startsWith h ''Bearer '' then None
          else (case verifyAccessToken l c now (drop 7 h) of
                  Returns (Some payload) \<Rightarrow>
                    (case findById (userId payload) d of
                       None \<Rightarrow> None
                     | Some u \<Rightarrow> Some (u_id u, u_email u))
                | _ \<Rightarrow> None))"

section \<open>AuthController\<close>

text \<open>
  Each handler takes the libraries, the configuration, the clock, the random values it
  draws, the request and the database, and returns the response it sends with the
  database it leaves. A \<open>throw\<close> inside the \<open>try\<close> block ends in the \<open>catch\<close> clause:
  status 500 and the database as the statements before it left it.
\<close>

text \<open>
  The block under \<open>// Generate tokens\<close>, which \<open>register\<close>, \<open>login\<close> and \<open>refresh\<close>
  repeat line by line: sign the access token, take the random refresh token, hash it,
  compute its expiry, insert the record, send the response with the given status and
  message.
\<close>

definition issue_tokens ::
  "lib \<Rightarrow> cfg \<Rightarrow> time \<Rightarrow> string \<Rightarrow> nat \<Rightarrow> string \<Rightarrow> user \<Rightarrow> db \<Rightarrow> response \<times> db" where
  "issue_tokens l c now rnd st msg u d =
     (case generateAccessToken l c now \<lparr>userId = u_id u, email = u_email u, iat = None, exp = None\<rparr> of
        Throws \<Rightarrow> (internal_error, d)
      | Returns accessToken \<Rightarrow>
          (case getRefreshTokenExpiry c now of
             Throws \<Rightarrow> (internal_error, d)
           | Returns refreshTokenExpiry \<Rightarrow>
               (let (row, d') = RefreshTokenModel_create now (u_id u) (hashRefreshToken l rnd)
                                  refreshTokenExpiry d
                in (\<lparr>status = st, body = AuthBody msg accessToken rnd (u_id u) (u_email u)\<rparr>, d'))))"

definition register ::
  "lib \<Rightarrow> cfg \<Rightarrow> time \<Rightarrow> string \<Rightarrow> string \<Rightarrow> string \<Rightarrow> string \<Rightarrow> db \<Rightarrow> response \<times> db" where
  "register l c now salt rnd em password d =
     (case registerSchema l em password of
        Some details \<Rightarrow>
          (\<lparr>status = 400, body = ErrorBody ''Validation failed'' ''VALIDATION_ERROR'' (Some details)\<rparr>, d)
      | None \<Rightarrow>
          if \<not> validateEmail em then (json_error 400 ''Invalid email format'' ''INVALID_EMAIL'', d)
          else if \<not> fst (validatePassword password)
          then (\<lparr>status = 400,
                 body = ErrorBody ''Password does not meet requirements'' ''WEAK_PASSWORD''
                          (Some (snd (validatePassword password)))\<rparr>, d)
          else (case findByEmail em d of
                  Some existingUser \<Rightarrow>
                    (json_error 409 ''User already exists with this email'' ''USER_EXISTS'', d)
                | None \<Rightarrow>
                    (case hashPassword l password salt of
                       Throws \<Rightarrow> (internal_error, d)
                     | Returns passwordHash \<Rightarrow>
                         (let (u, d1) = UserModel_create now em passwordHash d
                          in issue_tokens l c now rnd 201 ''User registered successfully'' u d1))))"

definition login ::
  "lib \<Rightarrow> cfg \<Rightarrow> time \<Rightarrow> string \<Rightarrow> string \<Rightarrow> string \<Rightarrow> db \<Rightarrow> response \<times> db" where
  "login l c now rnd em password d =
     (case loginSchema l em password of
        Some details \<Rightarrow>
          (\<lparr>status = 400, body = ErrorBody ''Validation failed'' ''VALIDATION_ERROR'' (Some details)\<rparr>, d)
      | None \<Rightarrow>
          (case findByEmail em d of
             None \<Rightarrow> (json_error 401 ''Invalid credentials'' ''INVALID_CREDENTIALS'', d)
           | Some u \<Rightarrow>
               (case verifyPassword l (password_hash u) password of
                  Throws \<Rightarrow> (internal_error, d)
                | Returns isValidPassword \<Rightarrow>
                    if \<not> isValidPassword
                    then (json_error 401 ''Invalid credentials'' ''INVALID_CREDENTIALS'', d)
                    else issue_tokens l c now rnd 200 ''Login successful'' u d)))"

definition refresh ::
  "lib \<Rightarrow> cfg \<Rightarrow> time \<Rightarrow> string \<Rightarrow> string \<Rightarrow> db \<Rightarrow> response \<times> db" where
  "refresh l c now rnd refreshToken d =
     (case refreshSchema l refreshToken of
        Some details \<Rightarrow>
          (\<lparr>status = 400, body = ErrorBody ''Validation failed'' ''VALIDATION_ERROR'' (Some details)\<rparr>, d)
      | None \<Rightarrow>
          (case findByTokenHash now (hashRefreshToken l refreshToken) d of
             None \<Rightarrow> (json_error 401 ''Invalid refresh token'' ''INVALID_REFRESH_TOKEN'', d)
           | Some storedToken \<Rightarrow>
               (case findById (rt_user_id storedToken) d of
                  None \<Rightarrow> (json_error 401 ''User not found'' ''USER_NOT_FOUND'', d)
                | Some u \<Rightarrow>
                    issue_tokens l c now rnd 200 ''Token refreshed successfully'' u
                      (revoke now (rt_id storedToken) d))))"

text \<open>\<open>req.body.refreshToken\<close> may be absent; \<open>if (refreshToken)\<close> also skips the empty
  string.\<close>

definition logout :: "lib \<Rightarrow> time \<Rightarrow> string option \<Rightarrow> req_user option \<Rightarrow> db \<Rightarrow> response \<times> db" where
  "logout l now refreshToken req_user d =
     (let d1 = (case refreshToken of
                  None \<Rightarrow> d
                | Some t \<Rightarrow> if t = [] then d
                            else snd (revokeByTokenHash now (hashRefreshToken l t) d));
          d2 = (case req_user of
                  None \<Rightarrow> d1
                | Some (uid, uemail) \<Rightarrow> revokeAllForUser now uid d1)
      in (\<lparr>status = 200, body = MessageBody ''Logout successful''\<rparr>, d2))"

text \<open>The callback of \<open>activeTokens.map\<close> in \<open>getSessions\<close>.\<close>

definition session_of :: "refresh_token \<Rightarrow> session" where
  "session_of token =
     \<lparr>s_id = rt_id token, createdAt = rt_created_at token, expiresAt = expires_at token\<rparr>"

definition getSessions :: "time \<Rightarrow> req_user option \<Rightarrow> db \<Rightarrow> response" where
  "getSessions now req_user d =
     (case req_user of
        None \<Rightarrow> json_error 401 ''Authentication required'' ''AUTH_REQUIRED''
      | Some (uid, uemail) \<Rightarrow>
          (let sessions = map session_of (findActiveByUserId now uid d)
           in \<lparr>status = 200, body = SessionsBody sessions (length sessions)\<rparr>))"

section \<open>The awaits of \<open>refresh\<close>\<close>

text \<open>
  \<open>refresh\<close> awaits four queries. Between two awaits the handler runs alone; while it
  waits, other requests run. A task records where a request stands: before the lookup of
  the token, before the lookup of the user, before the \<open>UPDATE\<close> of \<open>revoke\<close>, before
  the \<open>INSERT\<close> of \<open>create\<close> (holding the user, the access token, the new raw token,
  its hash and its expiry), or finished with its response. One step runs one query and
  the code up to the next query.
\<close>

datatype refresh_task =
    Start string
  | HaveToken refresh_token
  | HaveUser refresh_token user
  | Revoked user string string string time
  | Finished response

definition refresh_step ::
  "lib \<Rightarrow> cfg \<Rightarrow> time \<Rightarrow> string \<Rightarrow> refresh_task \<Rightarrow> db \<Rightarrow> refresh_task \<times> db" where
  "refresh_step l c now rnd task d =
     (case task of
        Start refreshToken \<Rightarrow>
          (case refreshSchema l refreshToken of
             Some details \<Rightarrow>
               (Finished \<lparr>status = 400,
                          body = ErrorBody ''Validation failed'' ''VALIDATION_ERROR'' (Some details)\<rparr>, d)
           | None \<Rightarrow>
               (case findByTokenHash now (hashRefreshToken l refreshToken) d of
                  None \<Rightarrow>
                    (Finished (json_error 401 ''Invalid refresh token'' ''INVALID_REFRESH_TOKEN''), d)
                | Some storedToken \<Rightarrow> (HaveToken storedToken, d)))
      | HaveToken storedToken \<Rightarrow>
          (case findById (rt_user_id storedToken) d of
             None \<Rightarrow> (Finished (json_error 401 ''User not found'' ''USER_NOT_FOUND''), d)
           | Some u \<Rightarrow> (HaveUser storedToken u, d))
      | HaveUser storedToken u \<Rightarrow>
          (let d' = revoke now (rt_id storedToken) d in
           case generateAccessToken l c now
                  \<lparr>userId = u_id u, email = u_email u, iat = None, exp = None\<rparr> of
             Throws \<Rightarrow> (Finished internal_error, d')
           | Returns accessToken \<Rightarrow>
               (case getRefreshTokenExpiry c now of
                  Throws \<Rightarrow> (Finished internal_error, d')
                | Returns refreshTokenExpiry \<Rightarrow>
                    (Revoked u accessToken rnd (hashRefreshToken l rnd) refreshTokenExpiry, d')))
      | Revoked u accessToken newRefreshTokenValue newRefreshTokenHash refreshTokenExpiry \<Rightarrow>
          (let (row, d') = RefreshTokenModel_create now (u_id u) newRefreshTokenHash
                             refreshTokenExpiry d
           in (Finished \<lparr>status = 200,
                          body = AuthBody ''Token refreshed successfully'' accessToken
                                   newRefreshTokenValue (u_id u) (u_email u)\<rparr>, d'))
      | Finished r \<Rightarrow> (Finished r, d))"

text \<open>
  Two \<open>refresh\<close> requests on one database. The schedule says, step by step, which of the
  two runs next and at what time; \<open>rnd1\<close> and \<open>rnd2\<close> are the random tokens the two
  requests draw.
\<close>

definition run_two ::
  "lib \<Rightarrow> cfg \<Rightarrow> string \<Rightarrow> string \<Rightarrow> (bool \<times> time) list \<Rightarrow>
   refresh_task \<times> refresh_task \<times> db \<Rightarrow> refresh_task \<times> refresh_task \<times> db" where
  "run_two l c rnd1 rnd2 schedule =
     fold (\<lambda>(first, now) (a, b, d).
             if first then (let (a', d') = refresh_step l c now rnd1 a d in (a', b, d'))
             else (let (b', d') = refresh_step l c now rnd2 b d in (a, b', d')))
          schedule"

text \<open>One request running alone: its four steps, one after the other, at one time.\<close>

definition refresh_run ::
  "lib \<Rightarrow> cfg \<Rightarrow> time \<Rightarrow> string \<Rightarrow> string \<Rightarrow> db \<Rightarrow> refresh_task \<times> db" where
  "refresh_run l c now rnd refreshToken d =
     ((\<lambda>(task, d'). refresh_step l c now rnd task d') ^^ 4) (Start refreshToken, d)"

section \<open>The contract of \<open>jsonwebtoken\<close>\<close>

text \<open>
  What the documentation of \<open>jsonwebtoken\<close> promises for one call
  \<open>jwt.sign(payload, secret, opts)\<close> at time \<open>t\<close>: it returns a token \<open>tok\<close> that expires
  at second \<open>e\<close>, and \<open>jwt.verify(tok, secret, {issuer, audience})\<close> with the issuer and
  audience of \<open>opts\<close> returns the payload with \<open>iat\<close> and \<open>exp\<close> added as long as the
  clock, in seconds, is below \<open>e\<close>, and throws from then on.
\<close>

definition jwt_contract ::
  "lib \<Rightarrow> jwt_payload \<Rightarrow> string \<Rightarrow> sign_options \<Rightarrow> time \<Rightarrow> string \<Rightarrow> nat \<Rightarrow> bool" where
  "jwt_contract l payload secret opts t tok e \<longleftrightarrow>
     jwt_sign l payload secret opts t = Returns tok \<and>
     (\<forall>t'. jwt_verify l tok secret \<lparr>v_issuer = issuer opts, v_audience = audience opts\<rparr> t' =
            (if t' div 1000 < e
             then Returns (payload\<lparr>iat := Some (t div 1000), exp := Some e\<rparr>)
             else Throws))"

section \<open>Test doubles\<close>

text \<open>
  Stand-ins for the libraries, to run the handlers on concrete requests: a digest is the
  salt, a dollar sign and the password; the signer returns \<open>jwt-1\<close> for account 1 in
  second 0, which verifies for 900 seconds, and \<open>jwt-2\<close>, which never verifies, for
  every other call; the hash of a refresh token is the token after a hash sign; the
  schemas accept every register and login body and every nonempty refresh token.
\<close>

definition test_lib :: lib where
  "test_lib =
     \<lparr>argon2_hash = (\<lambda>password salt. Returns (salt @ ''$'' @ password)),
      argon2_verify = (\<lambda>digest password.
         if CHR ''$'' \<in> set digest
         then Returns (dropWhile (\<lambda>ch. ch \<noteq> CHR ''$'') digest = ''$'' @ password)
         else Throws),
      jwt_sign = (\<lambda>payload secret opts now.
         if userId payload = 1 \<and> email payload = ''a@x.com'' \<and> expiresIn opts = ''15m''
            \<and> now div 1000 = 0
         then Returns ''jwt-1'' else Returns ''jwt-2''),
      jwt_verify = (\<lambda>token secret opts now.
         if token = ''jwt-1'' \<and> secret = ''test-jwt-secret'' \<and> v_issuer opts = ''habit-tracker''
            \<and> v_audience opts = ''habit-tracker-users'' \<and> now div 1000 < 900
         then Returns \<lparr>userId = 1, email = ''a@x.com'', iat = Some 0, exp = Some 900\<rparr>
         else Throws),
      sha256_hex = (\<lambda>s. ''#'' @ s),
      registerSchema = (\<lambda>em password. None),
      loginSchema = (\<lambda>em password. None),
      refreshSchema = (\<lambda>t. if t = [] then Some [''refreshToken is not allowed to be empty'']
                           else None)\<rparr>"

text \<open>The environment of \<open>__tests__/setup.ts\<close>.\<close>

definition test_cfg :: cfg where
  "test_cfg = load_cfg [''JWT_SECRET'' \<mapsto> ''test-jwt-secret'',
                        ''REFRESH_TOKEN_SECRET'' \<mapsto> ''test-refresh-secret'',
                        ''JWT_EXPIRES_IN'' \<mapsto> ''15m'',
                        ''REFRESH_TOKEN_EXPIRES_IN'' \<mapsto> ''7d'']"

text \<open>The database after \<open>a@x.com\<close> registered at time 0 with password \<open>Passw0rd1\<close>,
  salt \<open>salt\<close> and refresh token \<open>r1\<close>.\<close>

definition db1 :: db where
  "db1 = \<lparr>users = [\<lparr>u_id = 1, u_email = ''a@x.com'', password_hash = ''salt$Passw0rd1'',
                      u_created_at = 0, u_updated_at = 0\<rparr>],
           users_id_seq = 2,
           refresh_tokens = [\<lparr>rt_id = 1, rt_user_id = 1, token_hash = ''#r1'',
                               expires_at = 604800000, rt_created_at = 0, revoked_at = None\<rparr>],
           refresh_tokens_id_seq = 2\<rparr>"

text \<open>\<open>db1\<close> after account 1 was deleted.\<close>

definition deleted_db :: db where
  "deleted_db = UserModel_delete 1 db1"

text \<open>\<open>db1\<close> after its token was revoked at time 5.\<close>

definition revoked_db :: db where
  "revoked_db = revoke 5 1 db1"

text \<open>
  A ledger with five tokens: three of account 1 that are active at time 50 (created at
  20, 0 and 10), one of account 1 that is revoked, one of account 1 that expired at 40,
  and one of account 2.
\<close>

definition sessions_db :: db where
  "sessions_db =
     db1\<lparr>refresh_tokens :=
           [\<lparr>rt_id = 1, rt_user_id = 1, token_hash = ''#r1'', expires_at = 120,
             rt_created_at = 20, revoked_at = None\<rparr>,
            \<lparr>rt_id = 2, rt_user_id = 1, token_hash = ''#r2'', expires_at = 100,
             rt_created_at = 0, revoked_at = None\<rparr>,
            \<lparr>rt_id = 3, rt_user_id = 1, token_hash = ''#r3'', expires_at = 130,
             rt_created_at = 30, revoked_at = Some 35\<rparr>,
            \<lparr>rt_id = 4, rt_user_id = 1, token_hash = ''#r4'', expires_at = 40,
             rt_created_at = 5, revoked_at = None\<rparr>,
            \<lparr>rt_id = 5, rt_user_id = 2, token_hash = ''#r5'', expires_at = 140,
             rt_created_at = 40, revoked_at = None\<rparr>,
            \<lparr>rt_id = 6, rt_user_id = 1, token_hash = ''#r6'', expires_at = 110,
             rt_created_at = 10, revoked_at = None\<rparr>],
         refresh_tokens_id_seq := 7\<rparr>"

text \<open>\<open>db1\<close> after \<open>refresh\<close> of \<open>r1\<close> at time 1000 drew \<open>r2\<close>.\<close>

definition db2 :: db where
  "db2 = db1\<lparr>refresh_tokens :=
             [\<lparr>rt_id = 1, rt_user_id = 1, token_hash = ''#r1'', expires_at = 604800000,
               rt_created_at = 0, revoked_at = Some 1000\<rparr>,
              \<lparr>rt_id = 2, rt_user_id = 1, token_hash = ''#r2'', expires_at = 604801000,
               rt_created_at = 1000, revoked_at = None\<rparr>],
            refresh_tokens_id_seq := 3\<rparr>"

text \<open>\<open>db1\<close> after two interleaved \<open>refresh\<close> requests for \<open>r1\<close> drew \<open>r2\<close> and
  \<open>r3\<close>.\<close>

definition race_db :: db where
  "race_db = db1\<lparr>refresh_tokens :=
                 [\<lparr>rt_id = 1, rt_user_id = 1, token_hash = ''#r1'', expires_at = 604800000,
                   rt_created_at = 0, revoked_at = Some 1005\<rparr>,
                  \<lparr>rt_id = 2, rt_user_id = 1, token_hash = ''#r2'', expires_at = 604801004,
                   rt_created_at = 1006, revoked_at = None\<rparr>,
                  \<lparr>rt_id = 3, rt_user_id = 1, token_hash = ''#r3'', expires_at = 604801005,
                   rt_created_at = 1007, revoked_at = None\<rparr>],
                refresh_tokens_id_seq := 4\<rparr>"

lemmas model_defs = test_lib_def test_cfg_def load_cfg_def env_or_def empty_db_def db1_def
  first_row_def UserModel_create_def findByEmail_def findById_def RefreshTokenModel_create_def
  findByTokenHash_def revoke_def revokeAllForUser_def findActiveByUserId_def
  revokeByTokenHash_def hashPassword_def verifyPassword_def generateAccessToken_def
  verifyAccessToken_def hashRefreshToken_def is_digit_def parseInt_def parseExpiry_def
  getRefreshTokenExpiry_def is_space_def email_atom_def validateEmail_def is_upper_def
  is_lower_def validatePassword_def json_error_def internal_error_def startsWith_def
  requireAuth_def optionalAuth_def issue_tokens_def register_def login_def refresh_def
  logout_def session_of_def getSessions_def refresh_step_def run_two_def code_of_def
  UserModel_delete_def foreign_key_ok_def deleted_db_def revoked_db_def sessions_db_def db2_def race_db_def Let_def

section \<open>Facts about the tables\<close>

lemma first_row_eq_None: "first_row xs = None \<longleftrightarrow> xs = []"
  by (cases xs) (simp_all add: first_row_def)

lemma first_row_SomeD: "first_row xs = Some r \<Longrightarrow> r \<in> set xs"
  by (cases xs) (simp_all add: first_row_def)

lemma findByTokenHash_SomeD:
  assumes "findByTokenHash now h d = Some st"
  shows "st \<in> set (refresh_tokens d) \<and> token_hash st = h \<and> revoked_at st = None \<and>
         now < expires_at st"
  using first_row_SomeD [OF assms [unfolded findByTokenHash_def]] by simp

lemma findByTokenHash_eq_None:
  "findByTokenHash now h d = None \<longleftrightarrow>
     (\<forall>r \<in> set (refresh_tokens d).
        token_hash r = h \<longrightarrow> revoked_at r = None \<longrightarrow> expires_at r \<le> now)"
  by (auto simp: findByTokenHash_def first_row_eq_None filter_empty_conv not_less)

lemma findById_SomeD: "findById i d = Some u \<Longrightarrow> u_id u = i"
  using first_row_SomeD [of "filter (\<lambda>u. u_id u = i) (users d)" u] by (simp add: findById_def)

lemma revokeByTokenHash_tokens:
  "refresh_tokens (snd (revokeByTokenHash t h d)) =
     map (\<lambda>r. if token_hash r = h \<and> revoked_at r = None then r\<lparr>revoked_at := Some t\<rparr> else r)
         (refresh_tokens d)"
  by (simp add: revokeByTokenHash_def Let_def)

lemma revokeAllForUser_tokens:
  "refresh_tokens (revokeAllForUser t uid d) =
     map (\<lambda>r. if rt_user_id r = uid \<and> revoked_at r = None then r\<lparr>revoked_at := Some t\<rparr> else r)
         (refresh_tokens d)"
  by (simp add: revokeAllForUser_def)

section \<open>The regular expression of \<open>validateEmail\<close>\<close>

text \<open>\<open>validateEmail\<close> accepts exactly the strings that split into a nonempty run of
  class characters, an \<open>@\<close>, a second nonempty run, a dot and a third nonempty run.\<close>

lemma email_atom_dot: "email_atom CHR ''.''"
  by (simp add: email_atom_def is_space_def)

lemma not_email_atom_at: "\<not> email_atom CHR ''@''"
  by (simp add: email_atom_def)

lemma validateEmail_iff:
  "validateEmail e \<longleftrightarrow>
     (\<exists>a b c. e = a @ ''@'' @ b @ ''.'' @ c \<and> a \<noteq> [] \<and> b \<noteq> [] \<and> c \<noteq> [] \<and>
        list_all email_atom a \<and> list_all email_atom b \<and> list_all email_atom c)"
proof
  assume v: "validateEmail e"
  let ?a = "takeWhile email_atom e"
  from v obtain host where a: "?a \<noteq> []" and rest: "dropWhile email_atom e = CHR ''@'' # host"
    and atoms: "list_all email_atom host" and dot: "CHR ''.'' \<in> set (butlast (tl host))"
    by (auto simp: validateEmail_def Let_def split: list.splits)
  from dot obtain x rest' where host: "host = x # rest'" by (cases host) auto
  with dot have dot': "CHR ''.'' \<in> set (butlast rest')" by simp
  then have ne: "rest' \<noteq> []" by auto
  from dot' obtain m1 m2 where m: "butlast rest' = m1 @ CHR ''.'' # m2" by (auto dest: split_list)
  obtain y where y: "y = last rest'" by simp
  have rest': "rest' = m1 @ ''.'' @ (m2 @ [y])"
    using append_butlast_last_id [OF ne] m y by simp
  have e: "e = ?a @ ''@'' @ (x # m1) @ ''.'' @ (m2 @ [y])"
    using takeWhile_dropWhile_id [of email_atom e] rest host rest' by simp
  have "list_all email_atom ?a" by (simp add: list_all_iff) (meson set_takeWhileD)
  moreover have "list_all email_atom (x # m1)" "list_all email_atom (m2 @ [y])"
    using atoms unfolding host rest' by (simp_all add: list_all_iff)
  ultimately show "\<exists>a b c. e = a @ ''@'' @ b @ ''.'' @ c \<and> a \<noteq> [] \<and> b \<noteq> [] \<and> c \<noteq> [] \<and>
        list_all email_atom a \<and> list_all email_atom b \<and> list_all email_atom c"
    using a e by blast
next
  assume "\<exists>a b c. e = a @ ''@'' @ b @ ''.'' @ c \<and> a \<noteq> [] \<and> b \<noteq> [] \<and> c \<noteq> [] \<and>
        list_all email_atom a \<and> list_all email_atom b \<and> list_all email_atom c"
  then obtain a b c where e: "e = a @ CHR ''@'' # (b @ CHR ''.'' # c)"
    and ne: "a \<noteq> []" "b \<noteq> []" "c \<noteq> []"
    and atoms: "list_all email_atom a" "list_all email_atom b" "list_all email_atom c"
    by auto
  have tw: "takeWhile email_atom e = a"
    using atoms(1) not_email_atom_at by (simp add: e list_all_iff takeWhile_append2)
  have dw: "dropWhile email_atom e = CHR ''@'' # (b @ CHR ''.'' # c)"
    using atoms(1) not_email_atom_at by (simp add: e list_all_iff dropWhile_append2)
  obtain x b' where b: "b = x # b'" using ne(2) by (cases b) auto
  have "CHR ''.'' \<in> set (butlast (tl (b @ CHR ''.'' # c)))"
    using ne(3) by (simp add: b butlast_append)
  moreover have "list_all email_atom (b @ CHR ''.'' # c)"
    using atoms email_atom_dot by (auto simp: list_all_iff)
  ultimately show "validateEmail e"
    using ne(1) by (simp add: validateEmail_def tw dw)
qed

section \<open>Revocation of records that are already revoked\<close>

text \<open>\<open>revokeByTokenHash\<close> on a ledger where every record with that hash is revoked
  changes nothing and reports that no row was hit.\<close>

lemma revokeByTokenHash_noop:
  assumes "\<And>r. r \<in> set (refresh_tokens d) \<Longrightarrow> token_hash r = h \<Longrightarrow> revoked_at r \<noteq> None"
  shows "revokeByTokenHash t h d = (False, d)"
proof -
  have "map (\<lambda>r. if token_hash r = h \<and> revoked_at r = None then r\<lparr>revoked_at := Some t\<rparr> else r)
          (refresh_tokens d) = refresh_tokens d"
    using assms by (intro map_idI) auto
  moreover have "filter (\<lambda>r. token_hash r = h \<and> revoked_at r = None) (refresh_tokens d) = []"
    using assms by (auto simp: filter_empty_conv)
  ultimately show ?thesis by (simp add: revokeByTokenHash_def Let_def)
qed

text \<open>\<open>revokeAllForUser\<close> on a ledger where every record of the account is revoked
  changes nothing.\<close>

lemma revokeAllForUser_noop:
  assumes "\<And>r. r \<in> set (refresh_tokens d) \<Longrightarrow> rt_user_id r = uid \<Longrightarrow> revoked_at r \<noteq> None"
  shows "revokeAllForUser t uid d = d"
proof -
  have "map (\<lambda>r. if rt_user_id r = uid \<and> revoked_at r = None then r\<lparr>revoked_at := Some t\<rparr> else r)
          (refresh_tokens d) = refresh_tokens d"
    using assms by (intro map_idI) auto
  then show ?thesis by (simp add: revokeAllForUser_def)
qed

lemma revokeByTokenHash_revokes:
  assumes "r \<in> set (refresh_tokens (snd (revokeByTokenHash t h d)))" and "token_hash r = h"
  shows "revoked_at r \<noteq> None"
proof -
  from assms(1) obtain x where
    r: "r = (if token_hash x = h \<and> revoked_at x = None then x\<lparr>revoked_at := Some t\<rparr> else x)"
    unfolding revokeByTokenHash_tokens set_map by blast
  show ?thesis
  proof (cases "token_hash x = h \<and> revoked_at x = None")
    case True
    then show ?thesis using r by simp
  next
    case False
    then have "r = x" using r by simp
    then show ?thesis using False assms(2) by simp
  qed
qed

lemma revokeAllForUser_revokes:
  assumes "r \<in> set (refresh_tokens (revokeAllForUser t uid d))" and "rt_user_id r = uid"
  shows "revoked_at r \<noteq> None"
proof -
  from assms(1) obtain x where
    r: "r = (if rt_user_id x = uid \<and> revoked_at x = None then x\<lparr>revoked_at := Some t\<rparr> else x)"
    unfolding revokeAllForUser_tokens set_map by blast
  show ?thesis
  proof (cases "rt_user_id x = uid \<and> revoked_at x = None")
    case True
    then show ?thesis using r by simp
  next
    case False
    then have "r = x" using r by simp
    then show ?thesis using False assms(2) by simp
  qed
qed

lemma revokeAllForUser_keeps_revoked:
  assumes old: "\<And>r. r \<in> set (refresh_tokens d) \<Longrightarrow> token_hash r = h \<Longrightarrow> revoked_at r \<noteq> None"
      and "r \<in> set (refresh_tokens (revokeAllForUser t uid d))" and "token_hash r = h"
  shows "revoked_at r \<noteq> None"
proof -
  from assms(2) obtain x where x: "x \<in> set (refresh_tokens d)" and
    r: "r = (if rt_user_id x = uid \<and> revoked_at x = None then x\<lparr>revoked_at := Some t\<rparr> else x)"
    unfolding revokeAllForUser_tokens set_map by blast
  show ?thesis
  proof (cases "rt_user_id x = uid \<and> revoked_at x = None")
    case True
    then show ?thesis using r by simp
  next
    case False
    then have "r = x" using r by simp
    then show ?thesis using old [OF x] assms(3) by simp
  qed
qed

lemma logout_None_None:
  "logout l t None None d = (\<lparr>status = 200, body = MessageBody ''Logout successful''\<rparr>, d)"
  by (simp add: logout_def)

lemma logout_None_Some:
  "logout l t None (Some (uid, uemail)) d =
     (\<lparr>status = 200, body = MessageBody ''Logout successful''\<rparr>, revokeAllForUser t uid d)"
  by (simp add: logout_def)

lemma logout_empty: "logout l t (Some []) ru d = logout l t None ru d"
  by (simp add: logout_def)

lemma logout_Some_None:
  "s \<noteq> [] \<Longrightarrow> logout l t (Some s) None d =
     (\<lparr>status = 200, body = MessageBody ''Logout successful''\<rparr>,
      snd (revokeByTokenHash t (hashRefreshToken l s) d))"
  by (simp add: logout_def)

lemma logout_Some_Some:
  "s \<noteq> [] \<Longrightarrow> logout l t (Some s) (Some (uid, uemail)) d =
     (\<lparr>status = 200, body = MessageBody ''Logout successful''\<rparr>,
      revokeAllForUser t uid (snd (revokeByTokenHash t (hashRefreshToken l s) d)))"
  by (simp add: logout_def)

text \<open>A second \<open>logout\<close> with the same token and the same \<open>req.user\<close>, at any later
  time, answers 200 and leaves the database as the first one left it.\<close>

lemma logout_again:
  "logout l t2 tok ru (snd (logout l t1 tok ru d)) =
     (\<lparr>status = 200, body = MessageBody ''Logout successful''\<rparr>, snd (logout l t1 tok ru d))"
proof -
  have none: "logout l t2 None ru (snd (logout l t1 None ru d)) =
     (\<lparr>status = 200, body = MessageBody ''Logout successful''\<rparr>, snd (logout l t1 None ru d))"
  proof (cases ru)
    case None
    then show ?thesis by (simp add: logout_None_None)
  next
    case (Some p)
    obtain uid uemail where "p = (uid, uemail)" by (cases p)
    with Some have ru: "ru = Some (uid, uemail)" by simp
    have "revokeAllForUser t2 uid (revokeAllForUser t1 uid d) = revokeAllForUser t1 uid d"
      by (rule revokeAllForUser_noop) (rule revokeAllForUser_revokes)
    then show ?thesis by (simp add: ru logout_None_Some)
  qed
  show ?thesis
  proof (cases tok)
    case None
    then show ?thesis using none by simp
  next
    case (Some s)
    show ?thesis
    proof (cases "s = []")
      case True
      then show ?thesis using Some none by (simp add: logout_empty)
    next
      case False
      let ?h = "hashRefreshToken l s"
      let ?d1 = "snd (revokeByTokenHash t1 ?h d)"
      show ?thesis
      proof (cases ru)
        case None
        have "revokeByTokenHash t2 ?h ?d1 = (False, ?d1)"
          by (rule revokeByTokenHash_noop) (rule revokeByTokenHash_revokes)
        then show ?thesis using Some None False by (simp add: logout_Some_None)
      next
        case (Some p)
        obtain uid uemail where "p = (uid, uemail)" by (cases p)
        with Some have ru: "ru = Some (uid, uemail)" by simp
        let ?d2 = "revokeAllForUser t1 uid ?d1"
        have 1: "revokeByTokenHash t2 ?h ?d2 = (False, ?d2)"
        proof (rule revokeByTokenHash_noop)
          fix r assume "r \<in> set (refresh_tokens ?d2)" and "token_hash r = ?h"
          then show "revoked_at r \<noteq> None"
            by (rule revokeAllForUser_keeps_revoked [rotated 1])
               (rule revokeByTokenHash_revokes)
        qed
        have 2: "revokeAllForUser t2 uid ?d2 = ?d2"
          by (rule revokeAllForUser_noop) (rule revokeAllForUser_revokes)
        show ?thesis using \<open>tok = Some s\<close> ru False
          by (simp add: logout_Some_Some 1 2)
      qed
    qed
  qed
qed

text \<open>
  Claim C4 says that \<open>revoke\<close>, \<open>revokeByTokenHash\<close> and \<open>revokeAllForUser\<close> each leave
  an already revoked record as it is. The two lemmas above and \<open>logout_again\<close> show it
  for the latter two and for \<open>logout\<close>: their \<open>UPDATE\<close> carries \<open>AND revoked_at IS NULL\<close>.
  The \<open>UPDATE\<close> of \<open>revoke\<close> does not: in \<open>revoked_db\<close> record 1 was revoked at
  time 5, and revoking it again at time 9 moves its revocation time to 9.
\<close>

theorem revoke_overwrites_revoked_at:
  "map revoked_at (refresh_tokens revoked_db) = [Some 5] \<and>
   map revoked_at (refresh_tokens (revoke 9 1 revoked_db)) = [Some 9] \<and>
   revoke 9 1 revoked_db \<noteq> revoked_db"
proof -
  have a: "map revoked_at (refresh_tokens revoked_db) = [Some 5]"
    by (simp add: revoked_db_def db1_def revoke_def)
  have b: "map revoked_at (refresh_tokens (revoke 9 1 revoked_db)) = [Some 9]"
    by (simp add: revoked_db_def db1_def revoke_def)
  from a b have "revoke 9 1 revoked_db \<noteq> revoked_db" by auto
  with a b show ?thesis by simp
qed

section \<open>Session listing\<close>





section \<open>Password verification\<close>

text \<open>
  Claim C9: \<open>verifyPassword\<close> never throws: whatever \<open>argon2.verify\<close> does with the
  digest, \<open>verifyPassword\<close> returns a boolean, and it returns false whenever
  \<open>argon2.verify\<close> throws or returns false, as it does on a malformed digest.
\<close>

theorem verifyPassword_never_raises:
  "(\<exists>b. verifyPassword l digest password = Returns b) \<and>
   (argon2_verify l digest password \<noteq> Returns True \<longrightarrow>
      verifyPassword l digest password = Returns False)"
  by (cases "argon2_verify l digest password") (auto simp: verifyPassword_def)

text \<open>The test double throws on a digest without a dollar sign.\<close>

theorem verifyPassword_never_raises_witness:
  "argon2_verify test_lib ''not-a-digest'' ''Passw0rd1'' = Throws \<and>
   verifyPassword test_lib ''not-a-digest'' ''Passw0rd1'' = Returns False"
  using verifyPassword_never_raises [of test_lib "''not-a-digest''" "''Passw0rd1''"]
  by (simp add: test_lib_def)

section \<open>Access tokens\<close>

text \<open>
  Claim C5: let \<open>jsonwebtoken\<close> keep its contract for the call that
  \<open>generateAccessToken\<close> makes for an account id and email at time \<open>t\<close>, with token
  \<open>tok\<close> and expiry \<open>e\<close>. Then \<open>generateAccessToken\<close> returns \<open>tok\<close>;
  \<open>verifyAccessToken\<close> recovers the same id and email from it while the clock is
  before \<open>e\<close> and returns null from \<open>e\<close> on. For every library, configuration, time and
  string, \<open>verifyAccessToken\<close> never throws, and it returns null whenever \<open>jwt.verify\<close>
  throws, as it does on a signature, issuer, audience or structure mismatch.
\<close>

theorem access_token_round_trip:
  assumes "jwt_contract l \<lparr>userId = uid, email = em, iat = None, exp = None\<rparr> (JWT_SECRET c)
             \<lparr>expiresIn = JWT_EXPIRES_IN c, issuer = ''habit-tracker'',
              audience = ''habit-tracker-users''\<rparr> t tok e"
  shows "generateAccessToken l c t \<lparr>userId = uid, email = em, iat = None, exp = None\<rparr> =
           Returns tok \<and>
         (t' div 1000 < e \<longrightarrow>
            (\<exists>p. verifyAccessToken l c t' tok = Returns (Some p) \<and> userId p = uid \<and> email p = em)) \<and>
         (e \<le> t' div 1000 \<longrightarrow> verifyAccessToken l c t' tok = Returns None) \<and>
         (\<forall>l' c' now token.
            verifyAccessToken l' c' now token \<noteq> Throws \<and>
            (jwt_verify l' token (JWT_SECRET c')
               \<lparr>v_issuer = ''habit-tracker'', v_audience = ''habit-tracker-users''\<rparr> now = Throws
             \<longrightarrow> verifyAccessToken l' c' now token = Returns None))"
  using assms
  by (auto simp: jwt_contract_def generateAccessToken_def verifyAccessToken_def
           split: outcome.splits)

text \<open>The token of the test double, signed at time 0: valid in millisecond 899999,
  expired in millisecond 900000.\<close>

theorem access_token_round_trip_witness:
  "jwt_contract test_lib \<lparr>userId = 1, email = ''a@x.com'', iat = None, exp = None\<rparr>
     (JWT_SECRET test_cfg)
     \<lparr>expiresIn = JWT_EXPIRES_IN test_cfg, issuer = ''habit-tracker'',
      audience = ''habit-tracker-users''\<rparr> 0 ''jwt-1'' 900 \<and>
   generateAccessToken test_lib test_cfg 0 \<lparr>userId = 1, email = ''a@x.com'', iat = None, exp = None\<rparr>
     = Returns ''jwt-1'' \<and>
   verifyAccessToken test_lib test_cfg 899999 ''jwt-1'' =
     Returns (Some \<lparr>userId = 1, email = ''a@x.com'', iat = Some 0, exp = Some 900\<rparr>) \<and>
   verifyAccessToken test_lib test_cfg 900000 ''jwt-1'' = Returns None"
proof -
  have contract: "jwt_contract test_lib \<lparr>userId = 1, email = ''a@x.com'', iat = None, exp = None\<rparr>
     (JWT_SECRET test_cfg)
     \<lparr>expiresIn = JWT_EXPIRES_IN test_cfg, issuer = ''habit-tracker'',
      audience = ''habit-tracker-users''\<rparr> 0 ''jwt-1'' 900"
    by (simp add: jwt_contract_def test_lib_def test_cfg_def load_cfg_def env_or_def)
  have valid: "verifyAccessToken test_lib test_cfg 899999 ''jwt-1'' =
     Returns (Some \<lparr>userId = 1, email = ''a@x.com'', iat = Some 0, exp = Some 900\<rparr>)"
    by (simp add: model_defs)
  from access_token_round_trip [OF contract, of 900000] contract valid show ?thesis by simp
qed

section \<open>The authentication middleware\<close>

lemma startsWith_iff: "startsWith s p \<longleftrightarrow> (\<exists>t. s = p @ t)"
  unfolding startsWith_def by (metis append_eq_conv_conj append_take_drop_id)

text \<open>
  Claim C6, as the code has it: \<open>requireAuth\<close> lets a request through exactly when its
  header is \<open>Bearer\<close>, a space and a token that \<open>verifyAccessToken\<close> accepts, and
  \<open>UserModel.findById\<close> finds a row for the \<open>userId\<close> of the payload; the identity it
  attaches is the id and email of that row.
\<close>

theorem requireAuth_accepts_iff:
  "requireAuth l c now authHeader d = Next ru \<longleftrightarrow>
     (\<exists>token payload u. authHeader = Some (''Bearer '' @ token) \<and>
        verifyAccessToken l c now token = Returns (Some payload) \<and>
        findById (userId payload) d = Some u \<and> ru = (u_id u, u_email u))"
proof (cases authHeader)
  case None
  then show ?thesis by (simp add: requireAuth_def)
next
  case (Some h)
  show ?thesis
  proof (cases "startsWith h ''Bearer ''")
    case False
    then show ?thesis using Some by (auto simp: requireAuth_def startsWith_iff)
  next
    case True
    then obtain token where h: "h = ''Bearer '' @ token" by (auto simp: startsWith_iff)
    have "requireAuth l c now authHeader d =
          (case verifyAccessToken l c now token of
             Throws \<Rightarrow> Rejected (json_error 500 ''Authentication error'' ''AUTH_ERROR'')
           | Returns None \<Rightarrow>
               Rejected (json_error 401 ''Invalid or expired token'' ''INVALID_TOKEN'')
           | Returns (Some payload) \<Rightarrow>
               (case findById (userId payload) d of
                  None \<Rightarrow> Rejected (json_error 401 ''User not found'' ''USER_NOT_FOUND'')
                | Some u \<Rightarrow> Next (u_id u, u_email u)))"
      using Some True h by (simp add: requireAuth_def)
    then show ?thesis
      using Some h by (auto split: outcome.splits option.splits)
  qed
qed

text \<open>The token of the test double is accepted at time 5 on \<open>db1\<close>, which holds
  account 1.\<close>

theorem requireAuth_accepts_iff_witness:
  "requireAuth test_lib test_cfg 5 (Some ''Bearer jwt-1'') db1 = Next (1, ''a@x.com'')"
  using requireAuth_accepts_iff
          [of test_lib test_cfg 5 "Some ''Bearer jwt-1''" db1 "(1, ''a@x.com'')"]
  by (simp add: model_defs)

text \<open>
  Claim C6 as stated fails: the same well-signed, unexpired token is accepted on
  \<open>db1\<close> and rejected with \<open>USER_NOT_FOUND\<close> on the empty database, so the signature
  and the expiry do not decide acceptance, and a lookup is performed.
\<close>

theorem requireAuth_needs_account:
  "verifyAccessToken test_lib test_cfg 5 ''jwt-1'' =
     Returns (Some \<lparr>userId = 1, email = ''a@x.com'', iat = Some 0, exp = Some 900\<rparr>) \<and>
   requireAuth test_lib test_cfg 5 (Some ''Bearer jwt-1'') db1 = Next (1, ''a@x.com'') \<and>
   requireAuth test_lib test_cfg 5 (Some ''Bearer jwt-1'') empty_db =
     Rejected (json_error 401 ''User not found'' ''USER_NOT_FOUND'')"
  by (simp add: model_defs)

section \<open>Login\<close>

text \<open>
  Claim C7: for a login body that passes the schema, the response when no account has
  the email and the response when the account exists but the password does not verify
  are the same response, status 401 with code \<open>INVALID_CREDENTIALS\<close>, whatever the
  time and the random values; neither request changes the database.
\<close>

theorem login_failures_indistinguishable:
  assumes "loginSchema l em password = None"
      and "findByEmail em d1 = None"
      and "findByEmail em d2 = Some u"
      and "verifyPassword l (password_hash u) password = Returns False"
  shows "fst (login l c t1 rnd1 em password d1) = fst (login l c t2 rnd2 em password d2) \<and>
         fst (login l c t1 rnd1 em password d1) =
           \<lparr>status = 401, body = ErrorBody ''Invalid credentials'' ''INVALID_CREDENTIALS'' None\<rparr> \<and>
         snd (login l c t1 rnd1 em password d1) = d1 \<and>
         snd (login l c t2 rnd2 em password d2) = d2"
  using assms by (simp add: login_def json_error_def)

text \<open>\<open>a@x.com\<close> with a wrong password on the empty database and on \<open>db1\<close>.\<close>

theorem login_failures_indistinguishable_witness:
  "loginSchema test_lib ''a@x.com'' ''Wrong'' = None \<and>
   findByEmail ''a@x.com'' empty_db = None \<and>
   findByEmail ''a@x.com'' db1 = Some (hd (users db1)) \<and>
   verifyPassword test_lib (password_hash (hd (users db1))) ''Wrong'' = Returns False \<and>
   fst (login test_lib test_cfg 3 ''r2'' ''a@x.com'' ''Wrong'' empty_db) =
     fst (login test_lib test_cfg 4 ''r3'' ''a@x.com'' ''Wrong'' db1)"
proof -
  have a: "loginSchema test_lib ''a@x.com'' ''Wrong'' = None" by (simp add: test_lib_def)
  have b: "findByEmail ''a@x.com'' empty_db = None" by (simp add: model_defs)
  have c: "findByEmail ''a@x.com'' db1 = Some (hd (users db1))" by (simp add: model_defs)
  have d: "verifyPassword test_lib (password_hash (hd (users db1))) ''Wrong'' = Returns False"
    by (simp add: model_defs)
  show ?thesis
    using login_failures_indistinguishable [OF a b c d, of test_cfg 3 "''r2''" 4 "''r3''"] a b c d
    by simp
qed

section \<open>Registration\<close>

text \<open>
  Claim C3, as the code has it: a registration whose email belongs to an existing
  account leaves the database as it is, so no account row and no refresh-token record
  is created; when the body passes the schema, the email format check and the password
  strength check, the response is status 409 with code \<open>USER_EXISTS\<close>.
\<close>

theorem register_existing_email:
  assumes "findByEmail em d = Some existingUser"
  shows "snd (register l c now salt rnd em password d) = d \<and>
         (registerSchema l em password = None \<and> validateEmail em \<and>
          fst (validatePassword password) \<longrightarrow>
            fst (register l c now salt rnd em password d) =
              \<lparr>status = 409,
               body = ErrorBody ''User already exists with this email'' ''USER_EXISTS'' None\<rparr>)"
  using assms by (simp add: register_def json_error_def split: option.splits)

text \<open>A second registration of \<open>a@x.com\<close> on \<open>db1\<close>.\<close>

theorem register_existing_email_witness:
  "findByEmail ''a@x.com'' db1 = Some (hd (users db1)) \<and>
   registerSchema test_lib ''a@x.com'' ''Passw0rd1'' = None \<and> validateEmail ''a@x.com'' \<and>
   fst (validatePassword ''Passw0rd1'') \<and>
   register test_lib test_cfg 5 ''salt2'' ''r2'' ''a@x.com'' ''Passw0rd1'' db1 =
     (\<lparr>status = 409,
       body = ErrorBody ''User already exists with this email'' ''USER_EXISTS'' None\<rparr>, db1)"
proof -
  have a: "findByEmail ''a@x.com'' db1 = Some (hd (users db1))" by (simp add: model_defs)
  have b: "registerSchema test_lib ''a@x.com'' ''Passw0rd1'' = None" by (simp add: test_lib_def)
  have c: "validateEmail ''a@x.com''" by (simp add: model_defs)
  have d: "fst (validatePassword ''Passw0rd1'')" by (simp add: model_defs)
  show ?thesis
    using register_existing_email
            [OF a, of test_lib test_cfg 5 "''salt2''" "''r2''" "''Passw0rd1''"] a b c d
    by (simp add: prod_eq_iff)
qed

text \<open>
  Claim C3 as stated fails: the second registration of \<open>a@x.com\<close> on \<open>db1\<close> is
  answered with code \<open>USER_EXISTS\<close>, not \<open>ACCOUNT_EXISTS\<close>, and with a password that
  fails the strength check it is answered with \<open>WEAK_PASSWORD\<close>.
\<close>

theorem register_existing_email_code:
  "findByEmail ''a@x.com'' db1 \<noteq> None \<and>
   code_of (fst (register test_lib test_cfg 5 ''salt2'' ''r2'' ''a@x.com'' ''Passw0rd1'' db1)) =
     Some ''USER_EXISTS'' \<and>
   code_of (fst (register test_lib test_cfg 5 ''salt2'' ''r2'' ''a@x.com'' ''Passw0rd1'' db1)) \<noteq>
     Some ''ACCOUNT_EXISTS'' \<and>
   code_of (fst (register test_lib test_cfg 5 ''salt2'' ''r2'' ''a@x.com'' ''password'' db1)) =
     Some ''WEAK_PASSWORD''"
  by (simp add: model_defs)

section \<open>Refresh: a vanished account\<close>

text \<open>
  Where the foreign key holds, a record that \<open>findByTokenHash\<close> finds has an account
  that \<open>findById\<close> finds in the same database. So \<open>refresh\<close> answers \<open>USER_NOT_FOUND\<close>
  only when the account is deleted between its first and its second query, and the
  statement is about the steps of the handler.
\<close>

lemma foreign_key_finds_account:
  assumes "foreign_key_ok d" and "findByTokenHash now h d = Some storedToken"
  shows "findById (rt_user_id storedToken) d \<noteq> None"
proof -
  from findByTokenHash_SomeD [OF assms(2)] have "storedToken \<in> set (refresh_tokens d)" by simp
  with assms(1) obtain u where "u \<in> set (users d)" and "u_id u = rt_user_id storedToken"
    by (auto simp: foreign_key_ok_def list_all_iff list_ex_iff)
  then have "filter (\<lambda>u. u_id u = rt_user_id storedToken) (users d) \<noteq> []"
    by (auto simp: filter_empty_conv)
  then show ?thesis by (simp add: findById_def first_row_eq_None)
qed

lemma UserModel_delete_foreign_key:
  assumes "foreign_key_ok d"
  shows "foreign_key_ok (UserModel_delete i d)"
  using assms
  by (fastforce simp: foreign_key_ok_def UserModel_delete_def list_all_iff list_ex_iff)

text \<open>
  Claim C10: let the first query of \<open>refresh\<close> find an active record for the presented
  token in the database \<open>d\<close>, and let the account of the record be absent from the
  database \<open>d'\<close> that the second query reads. Then the first step returns \<open>d\<close> as it
  was, the second step answers 401 with code \<open>USER_NOT_FOUND\<close> and returns \<open>d'\<close> as it
  was, and the finished request changes no later database either: the handler revokes
  no record and creates none.
\<close>

theorem refresh_user_not_found:
  assumes "refreshSchema l refreshToken = None"
      and "findByTokenHash t1 (hashRefreshToken l refreshToken) d = Some storedToken"
      and "findById (rt_user_id storedToken) d' = None"
  shows "refresh_step l c t1 rnd (Start refreshToken) d = (HaveToken storedToken, d) \<and>
         refresh_step l c t2 rnd (HaveToken storedToken) d' =
           (Finished \<lparr>status = 401, body = ErrorBody ''User not found'' ''USER_NOT_FOUND'' None\<rparr>,
            d') \<and>
         refresh_step l c t3 rnd
             (Finished \<lparr>status = 401, body = ErrorBody ''User not found'' ''USER_NOT_FOUND'' None\<rparr>)
             d'' =
           (Finished \<lparr>status = 401, body = ErrorBody ''User not found'' ''USER_NOT_FOUND'' None\<rparr>,
            d'')"
  using assms by (simp add: refresh_step_def json_error_def)

text \<open>Token \<open>r1\<close> is looked up on \<open>db1\<close> at time 5; account 1 is deleted; the second
  query runs on \<open>deleted_db\<close> at time 6. Both databases satisfy the foreign key.\<close>

theorem refresh_user_not_found_witness:
  "foreign_key_ok db1 \<and> foreign_key_ok deleted_db \<and>
   refreshSchema test_lib ''r1'' = None \<and>
   findByTokenHash 5 (hashRefreshToken test_lib ''r1'') db1 = Some (hd (refresh_tokens db1)) \<and>
   findById (rt_user_id (hd (refresh_tokens db1))) deleted_db = None \<and>
   refresh_step test_lib test_cfg 5 ''r2'' (Start ''r1'') db1 =
     (HaveToken (hd (refresh_tokens db1)), db1) \<and>
   refresh_step test_lib test_cfg 6 ''r2'' (HaveToken (hd (refresh_tokens db1))) deleted_db =
     (Finished \<lparr>status = 401, body = ErrorBody ''User not found'' ''USER_NOT_FOUND'' None\<rparr>,
      deleted_db)"
proof -
  have k: "foreign_key_ok db1" by (simp add: foreign_key_ok_def db1_def)
  have k': "foreign_key_ok deleted_db"
    unfolding deleted_db_def by (rule UserModel_delete_foreign_key [OF k])
  have a: "refreshSchema test_lib ''r1'' = None" by (simp add: test_lib_def)
  have b: "findByTokenHash 5 (hashRefreshToken test_lib ''r1'') db1 =
             Some (hd (refresh_tokens db1))"
    by (simp add: model_defs)
  have c: "findById (rt_user_id (hd (refresh_tokens db1))) deleted_db = None"
    by (simp add: model_defs)
  show ?thesis
    using refresh_user_not_found [OF a b c, of test_cfg "''r2''" 6 7 db1] k k' a b c by simp
qed

section \<open>Refresh: rotation\<close>

text \<open>The token table after \<open>revoke\<close> of record \<open>i\<close> and \<open>create\<close> of a new record.\<close>

lemma rotated_tokens:
  "refresh_tokens (snd (RefreshTokenModel_create now uid h e (revoke now' i d))) =
     map (\<lambda>r. if rt_id r = i then r\<lparr>revoked_at := Some now'\<rparr> else r) (refresh_tokens d) @
     [\<lparr>rt_id = refresh_tokens_id_seq d, rt_user_id = uid, token_hash = h, expires_at = e,
       rt_created_at = now, revoked_at = None\<rparr>]"
  by (simp add: RefreshTokenModel_create_def revoke_def Let_def)

lemma rotated_users:
  "users (snd (RefreshTokenModel_create now uid h e (revoke now' i d))) = users d"
  by (simp add: RefreshTokenModel_create_def revoke_def Let_def)

lemma findById_rotated:
  "findById j (snd (RefreshTokenModel_create now uid h e (revoke now' i d))) = findById j d"
  by (simp add: findById_def rotated_users)

lemma issue_tokens_cases:
  "issue_tokens l c now rnd st msg u d =
     (case generateAccessToken l c now \<lparr>userId = u_id u, email = u_email u, iat = None, exp = None\<rparr> of
        Throws \<Rightarrow> (internal_error, d)
      | Returns accessToken \<Rightarrow>
          (case getRefreshTokenExpiry c now of
             Throws \<Rightarrow> (internal_error, d)
           | Returns e \<Rightarrow>
               (\<lparr>status = st, body = AuthBody msg accessToken rnd (u_id u) (u_email u)\<rparr>,
                snd (RefreshTokenModel_create now (u_id u) (hashRefreshToken l rnd) e d))))"
  by (simp add: issue_tokens_def Let_def split_beta split: outcome.splits)

lemma refresh_200D:
  assumes "refresh l c now rnd tok d = (r, d')" and "status r = 200"
  shows "\<exists>st u acc e. refreshSchema l tok = None \<and>
           findByTokenHash now (hashRefreshToken l tok) d = Some st \<and>
           findById (rt_user_id st) d = Some u \<and>
           generateAccessToken l c now \<lparr>userId = u_id u, email = u_email u, iat = None, exp = None\<rparr>
             = Returns acc \<and>
           getRefreshTokenExpiry c now = Returns e \<and>
           r = \<lparr>status = 200, body = AuthBody ''Token refreshed successfully'' acc rnd (u_id u) (u_email u)\<rparr> \<and>
           d' = snd (RefreshTokenModel_create now (u_id u) (hashRefreshToken l rnd) e
                       (revoke now (rt_id st) d))"
  using assms
  by (auto simp: refresh_def issue_tokens_cases json_error_def internal_error_def
           split: option.splits outcome.splits)

lemma refresh_200I:
  assumes "refreshSchema l tok = None"
      and "findByTokenHash now (hashRefreshToken l tok) d = Some st"
      and "findById (rt_user_id st) d = Some u"
      and "generateAccessToken l c now \<lparr>userId = u_id u, email = u_email u, iat = None, exp = None\<rparr>
             = Returns acc"
      and "getRefreshTokenExpiry c now = Returns e"
  shows "refresh l c now rnd tok d =
           (\<lparr>status = 200, body = AuthBody ''Token refreshed successfully'' acc rnd (u_id u) (u_email u)\<rparr>,
            snd (RefreshTokenModel_create now (u_id u) (hashRefreshToken l rnd) e
                   (revoke now (rt_id st) d)))"
  using assms by (simp add: refresh_def issue_tokens_cases)

lemma refresh_invalidI:
  assumes "refreshSchema l tok = None"
      and "findByTokenHash now (hashRefreshToken l tok) d = None"
  shows "refresh l c now rnd tok d =
           (json_error 401 ''Invalid refresh token'' ''INVALID_REFRESH_TOKEN'', d)"
  using assms by (simp add: refresh_def)

lemma getRefreshTokenExpiry_any:
  "getRefreshTokenExpiry c t = Returns e \<Longrightarrow> \<exists>e'. getRefreshTokenExpiry c t' = Returns e'"
  by (auto simp: getRefreshTokenExpiry_def split: outcome.splits)


text \<open>After a rotation every record with the hash of the presented record is
  revoked.\<close>

lemma rotated_dead:
  assumes "st \<in> set (refresh_tokens d)"
      and "distinct (map token_hash (refresh_tokens d))"
      and "hnew \<noteq> token_hash st"
  shows "\<forall>r \<in> set (refresh_tokens (snd (RefreshTokenModel_create now uid hnew e
                                          (revoke now' (rt_id st) d)))).
           token_hash r = token_hash st \<longrightarrow> revoked_at r \<noteq> None"
proof -
  have inj: "inj_on token_hash (set (refresh_tokens d))"
    using assms(2) by (simp add: distinct_map)
  have "r = st" if "r \<in> set (refresh_tokens d)" "token_hash r = token_hash st" for r
    using inj that assms(1) by (auto dest: inj_onD)
  then show ?thesis using assms(3) by (auto simp: rotated_tokens)
qed

lemma rotated_stays_dead:
  assumes "\<forall>r \<in> set (refresh_tokens d). token_hash r = h \<longrightarrow> revoked_at r \<noteq> None"
      and "hnew \<noteq> h"
  shows "\<forall>r \<in> set (refresh_tokens (snd (RefreshTokenModel_create now uid hnew e
                                          (revoke now' i d)))).
           token_hash r = h \<longrightarrow> revoked_at r \<noteq> None"
  using assms by (auto simp: rotated_tokens)

lemma dead_not_found:
  assumes "\<forall>r \<in> set (refresh_tokens d). token_hash r = h \<longrightarrow> revoked_at r \<noteq> None"
  shows "findByTokenHash t h d = None"
  using assms by (auto simp: findByTokenHash_eq_None)

lemma rotated_new_found:
  assumes "hnew \<notin> token_hash ` set (refresh_tokens d)" and "t < e"
  shows "findByTokenHash t hnew (snd (RefreshTokenModel_create now uid hnew e (revoke now' i d))) =
           Some \<lparr>rt_id = refresh_tokens_id_seq d, rt_user_id = uid, token_hash = hnew,
                 expires_at = e, rt_created_at = now, revoked_at = None\<rparr>"
proof -
  have "filter (\<lambda>r. token_hash r = hnew \<and> revoked_at r = None \<and> t < expires_at r)
          (map (\<lambda>r. if rt_id r = i then r\<lparr>revoked_at := Some now'\<rparr> else r) (refresh_tokens d)) = []"
    using assms(1) by (auto simp: filter_empty_conv)
  then show ?thesis using assms(2)
    by (simp add: findByTokenHash_def rotated_tokens first_row_def)
qed

lemma map_token_hash_revoked:
  "map (token_hash \<circ> (\<lambda>r. if P r then r\<lparr>revoked_at := v\<rparr> else r)) xs = map token_hash xs"
  by (induction xs) simp_all

lemma rotated_hashes:
  "map token_hash (refresh_tokens (snd (RefreshTokenModel_create now uid hnew e (revoke now' i d)))) =
     map token_hash (refresh_tokens d) @ [hnew]"
  by (simp add: rotated_tokens map_token_hash_revoked)

lemma rotated_distinct:
  assumes "distinct (map token_hash (refresh_tokens d))"
      and "hnew \<notin> token_hash ` set (refresh_tokens d)"
  shows "distinct (map token_hash (refresh_tokens (snd (RefreshTokenModel_create now uid hnew e
                                                          (revoke now' i d)))))"
  using assms unfolding rotated_hashes by simp

text \<open>
  Every handler keeps the token hashes of the ledger pairwise distinct, as long as the
  hash of the random token it draws is new to the ledger.
\<close>

lemma revoke_hashes:
  "map token_hash (refresh_tokens (revoke t i d)) = map token_hash (refresh_tokens d)"
  by (simp add: revoke_def map_token_hash_revoked)

lemma revokeAllForUser_hashes:
  "map token_hash (refresh_tokens (revokeAllForUser t uid d)) = map token_hash (refresh_tokens d)"
  by (simp add: revokeAllForUser_def map_token_hash_revoked)

lemma revokeByTokenHash_hashes:
  "map token_hash (refresh_tokens (snd (revokeByTokenHash t h d))) = map token_hash (refresh_tokens d)"
  by (simp add: revokeByTokenHash_def Let_def map_token_hash_revoked)

lemma issue_tokens_hashes:
  "map token_hash (refresh_tokens (snd (issue_tokens l c now rnd st msg u d))) =
     map token_hash (refresh_tokens d) \<or>
   map token_hash (refresh_tokens (snd (issue_tokens l c now rnd st msg u d))) =
     map token_hash (refresh_tokens d) @ [hashRefreshToken l rnd]"
  by (simp add: issue_tokens_cases RefreshTokenModel_create_def Let_def split: outcome.splits)

lemma issue_tokens_distinct:
  assumes "distinct (map token_hash (refresh_tokens d))"
      and "hashRefreshToken l rnd \<notin> token_hash ` set (refresh_tokens d)"
  shows "distinct (map token_hash (refresh_tokens (snd (issue_tokens l c now rnd st msg u d))))"
  using issue_tokens_hashes [of l c now rnd st msg u d] assms by auto

lemma refresh_distinct:
  assumes "distinct (map token_hash (refresh_tokens d))"
      and "hashRefreshToken l rnd \<notin> token_hash ` set (refresh_tokens d)"
  shows "distinct (map token_hash (refresh_tokens (snd (refresh l c now rnd tok d))))"
proof -
  have "distinct (map token_hash (refresh_tokens (snd (issue_tokens l c now rnd st msg u (revoke now i d)))))"
    for st msg u i
  proof (rule issue_tokens_distinct)
    show "distinct (map token_hash (refresh_tokens (revoke now i d)))"
      using assms(1) by (simp only: revoke_hashes)
    have "token_hash ` set (refresh_tokens (revoke now i d)) = token_hash ` set (refresh_tokens d)"
      using revoke_hashes [of now i d] by (metis set_map)
    then show "hashRefreshToken l rnd \<notin> token_hash ` set (refresh_tokens (revoke now i d))"
      using assms(2) by simp
  qed
  then show ?thesis using assms(1) by (simp add: refresh_def split: option.splits)
qed

lemma login_distinct:
  assumes "distinct (map token_hash (refresh_tokens d))"
      and "hashRefreshToken l rnd \<notin> token_hash ` set (refresh_tokens d)"
  shows "distinct (map token_hash (refresh_tokens (snd (login l c now rnd em pw d))))"
  using assms issue_tokens_distinct [OF assms]
  by (simp add: login_def split: option.splits outcome.splits)

lemma register_distinct:
  assumes "distinct (map token_hash (refresh_tokens d))"
      and "hashRefreshToken l rnd \<notin> token_hash ` set (refresh_tokens d)"
  shows "distinct (map token_hash (refresh_tokens (snd (register l c now salt rnd em pw d))))"
proof -
  have "distinct (map token_hash (refresh_tokens (snd (issue_tokens l c now rnd st msg u
           (snd (UserModel_create now em h d))))))" for st msg u h
    by (rule issue_tokens_distinct) (use assms in \<open>simp_all add: UserModel_create_def Let_def\<close>)
  then show ?thesis using assms(1)
    by (simp add: register_def split_beta Let_def split: option.splits outcome.splits)
qed

lemma logout_distinct:
  assumes "distinct (map token_hash (refresh_tokens d))"
  shows "distinct (map token_hash (refresh_tokens (snd (logout l now tok ru d))))"
  using assms
  by (cases tok; cases ru)
     (simp_all add: logout_def Let_def revokeAllForUser_hashes revokeByTokenHash_hashes split_beta)

text \<open>
  Claim C1. Let \<open>refresh\<close> of secret \<open>A\<close> at time \<open>t1\<close> succeed and return the new
  secret \<open>B\<close>, on a ledger whose token hashes are pairwise distinct (the column has no
  \<open>UNIQUE\<close> constraint; the secrets are 64 random bytes), with the hashes of \<open>B\<close> and
  of the next secret \<open>C\<close> new to the ledger. Then the database it leaves is the
  insertion of the record of \<open>B\<close> into the database in which the record of \<open>A\<close> was
  revoked first; any further \<open>refresh\<close> of \<open>A\<close> fails with \<open>INVALID_REFRESH_TOKEN\<close>
  and changes nothing; \<open>refresh\<close> of \<open>B\<close> at a time \<open>t3\<close> before the expiry of \<open>B\<close>, at
  which the signer returns a token, succeeds for the same account and returns \<open>C\<close>; and
  after it \<open>refresh\<close> of \<open>B\<close> and of \<open>A\<close> fail with \<open>INVALID_REFRESH_TOKEN\<close>.
\<close>

theorem refresh_rotation:
  assumes first: "refresh l c t1 B A d = (r1, d1)" and ok: "status r1 = 200"
      and uniq: "distinct (map token_hash (refresh_tokens d))"
      and freshB: "hashRefreshToken l B \<notin> token_hash ` set (refresh_tokens d)"
      and freshC: "hashRefreshToken l C \<notin> token_hash ` set (refresh_tokens d)"
      and C_not_B: "hashRefreshToken l C \<noteq> hashRefreshToken l B"
      and validB: "refreshSchema l B = None"
      and expiry: "getRefreshTokenExpiry c t1 = Returns e" and live: "t3 < e"
      and signer: "\<And>p. generateAccessToken l c t3 p \<noteq> Throws"
  shows "\<exists>st u acc1.
           findByTokenHash t1 (hashRefreshToken l A) d = Some st \<and>
           findById (rt_user_id st) d = Some u \<and>
           r1 = \<lparr>status = 200,
                 body = AuthBody ''Token refreshed successfully'' acc1 B (u_id u) (u_email u)\<rparr> \<and>
           d1 = snd (RefreshTokenModel_create t1 (u_id u) (hashRefreshToken l B) e
                       (revoke t1 (rt_id st) d)) \<and>
           refresh l c t2 X A d1 =
             (json_error 401 ''Invalid refresh token'' ''INVALID_REFRESH_TOKEN'', d1) \<and>
           (\<exists>acc3 d3.
              refresh l c t3 C B d1 =
                (\<lparr>status = 200,
                  body = AuthBody ''Token refreshed successfully'' acc3 C (u_id u) (u_email u)\<rparr>, d3) \<and>
              refresh l c t4 Y B d3 =
                (json_error 401 ''Invalid refresh token'' ''INVALID_REFRESH_TOKEN'', d3) \<and>
              refresh l c t5 Z A d3 =
                (json_error 401 ''Invalid refresh token'' ''INVALID_REFRESH_TOKEN'', d3))"
proof -
  let ?hA = "hashRefreshToken l A" and ?hB = "hashRefreshToken l B" and ?hC = "hashRefreshToken l C"
  from refresh_200D [OF first ok] expiry obtain st u acc1 where
        validA: "refreshSchema l A = None"
    and st: "findByTokenHash t1 ?hA d = Some st"
    and u: "findById (rt_user_id st) d = Some u"
    and r1: "r1 = \<lparr>status = 200,
                    body = AuthBody ''Token refreshed successfully'' acc1 B (u_id u) (u_email u)\<rparr>"
    and d1: "d1 = snd (RefreshTokenModel_create t1 (u_id u) ?hB e (revoke t1 (rt_id st) d))"
    by auto
  from findByTokenHash_SomeD [OF st] have st_in: "st \<in> set (refresh_tokens d)"
    and st_hash: "token_hash st = ?hA" by simp_all
  have hA_old: "?hA \<in> token_hash ` set (refresh_tokens d)" using st_in st_hash by force
  have B_not_A: "?hB \<noteq> ?hA" using freshB hA_old by auto
  have C_not_A: "?hC \<noteq> ?hA" using freshC hA_old by auto
  \<comment> \<open>the presented record is revoked in \<open>d1\<close>\<close>
  have deadA1: "\<forall>r \<in> set (refresh_tokens d1). token_hash r = ?hA \<longrightarrow> revoked_at r \<noteq> None"
    using rotated_dead [OF st_in uniq, of ?hB t1 "u_id u" e t1] B_not_A st_hash d1 by simp
  have again: "refresh l c t2 X A d1 =
                 (json_error 401 ''Invalid refresh token'' ''INVALID_REFRESH_TOKEN'', d1)"
    by (rule refresh_invalidI [OF validA dead_not_found [OF deadA1]])
  \<comment> \<open>the new record is found in \<open>d1\<close>\<close>
  let ?newB = "\<lparr>rt_id = refresh_tokens_id_seq d, rt_user_id = u_id u, token_hash = ?hB,
                 expires_at = e, rt_created_at = t1, revoked_at = None\<rparr>"
  have foundB: "findByTokenHash t3 ?hB d1 = Some ?newB"
    unfolding d1 by (rule rotated_new_found [OF freshB live])
  have uid: "u_id u = rt_user_id st" by (rule findById_SomeD [OF u])
  have userB: "findById (rt_user_id ?newB) d1 = Some u"
    using u uid by (simp add: d1 findById_rotated)
  from signer [of "\<lparr>userId = u_id u, email = u_email u, iat = None, exp = None\<rparr>"]
  obtain acc3 where acc3: "generateAccessToken l c t3
        \<lparr>userId = u_id u, email = u_email u, iat = None, exp = None\<rparr> = Returns acc3"
    by (cases "generateAccessToken l c t3 \<lparr>userId = u_id u, email = u_email u, iat = None, exp = None\<rparr>")
       auto
  from getRefreshTokenExpiry_any [OF expiry, of t3] obtain e3 where
    e3: "getRefreshTokenExpiry c t3 = Returns e3" by blast
  let ?d3 = "snd (RefreshTokenModel_create t3 (u_id u) ?hC e3 (revoke t3 (rt_id ?newB) d1))"
  have second: "refresh l c t3 C B d1 =
      (\<lparr>status = 200,
        body = AuthBody ''Token refreshed successfully'' acc3 C (u_id u) (u_email u)\<rparr>, ?d3)"
    by (rule refresh_200I [OF validB foundB userB acc3 e3])
  \<comment> \<open>both secrets are dead in \<open>d3\<close>\<close>
  have uniq1: "distinct (map token_hash (refresh_tokens d1))"
    unfolding d1 by (rule rotated_distinct [OF uniq freshB])
  have newB_in: "?newB \<in> set (refresh_tokens d1)" by (simp add: d1 rotated_tokens)
  have deadB3: "\<forall>r \<in> set (refresh_tokens ?d3). token_hash r = ?hB \<longrightarrow> revoked_at r \<noteq> None"
    using rotated_dead [OF newB_in uniq1, of ?hC t3 "u_id u" e3 t3] C_not_B by simp
  have deadA3: "\<forall>r \<in> set (refresh_tokens ?d3). token_hash r = ?hA \<longrightarrow> revoked_at r \<noteq> None"
    by (rule rotated_stays_dead [OF deadA1 C_not_A])
  have third: "refresh l c t4 Y B ?d3 =
                 (json_error 401 ''Invalid refresh token'' ''INVALID_REFRESH_TOKEN'', ?d3)"
    by (rule refresh_invalidI [OF validB dead_not_found [OF deadB3]])
  have fourth: "refresh l c t5 Z A ?d3 =
                 (json_error 401 ''Invalid refresh token'' ''INVALID_REFRESH_TOKEN'', ?d3)"
    by (rule refresh_invalidI [OF validA dead_not_found [OF deadA3]])
  from st u r1 d1 again second third fourth show ?thesis by blast
qed


text \<open>On \<open>db1\<close>: \<open>r1\<close> is rotated to \<open>r2\<close> at time 1000, leaving \<open>db2\<close>; \<open>r1\<close> is
  refused at 1500; \<open>r2\<close> is rotated to \<open>r3\<close> at 2000 and refused at 3000.\<close>

theorem refresh_rotation_witness:
  "refresh test_lib test_cfg 1000 ''r2'' ''r1'' db1 =
     (\<lparr>status = 200,
       body = AuthBody ''Token refreshed successfully'' ''jwt-2'' ''r2'' 1 ''a@x.com''\<rparr>, db2) \<and>
   distinct (map token_hash (refresh_tokens db1)) \<and>
   hashRefreshToken test_lib ''r2'' \<notin> token_hash ` set (refresh_tokens db1) \<and>
   hashRefreshToken test_lib ''r3'' \<notin> token_hash ` set (refresh_tokens db1) \<and>
   hashRefreshToken test_lib ''r3'' \<noteq> hashRefreshToken test_lib ''r2'' \<and>
   refreshSchema test_lib ''r2'' = None \<and>
   getRefreshTokenExpiry test_cfg 1000 = Returns 604801000 \<and>
   (2000::nat) < 604801000 \<and>
   refresh test_lib test_cfg 1500 ''r9'' ''r1'' db2 =
     (json_error 401 ''Invalid refresh token'' ''INVALID_REFRESH_TOKEN'', db2) \<and>
   status (fst (refresh test_lib test_cfg 2000 ''r3'' ''r2'' db2)) = 200 \<and>
   refresh test_lib test_cfg 3000 ''r4'' ''r2''
       (snd (refresh test_lib test_cfg 2000 ''r3'' ''r2'' db2)) =
     (json_error 401 ''Invalid refresh token'' ''INVALID_REFRESH_TOKEN'',
      snd (refresh test_lib test_cfg 2000 ''r3'' ''r2'' db2))"
proof -
  have first: "refresh test_lib test_cfg 1000 ''r2'' ''r1'' db1 =
     (\<lparr>status = 200,
       body = AuthBody ''Token refreshed successfully'' ''jwt-2'' ''r2'' 1 ''a@x.com''\<rparr>, db2)"
    by (simp add: model_defs)
  have ok: "status \<lparr>status = 200,
       body = AuthBody ''Token refreshed successfully'' ''jwt-2'' ''r2'' 1 ''a@x.com''\<rparr> = 200"
    by simp
  have uniq: "distinct (map token_hash (refresh_tokens db1))" by (simp add: db1_def)
  have freshB: "hashRefreshToken test_lib ''r2'' \<notin> token_hash ` set (refresh_tokens db1)"
    by (simp add: db1_def hashRefreshToken_def test_lib_def)
  have freshC: "hashRefreshToken test_lib ''r3'' \<notin> token_hash ` set (refresh_tokens db1)"
    by (simp add: db1_def hashRefreshToken_def test_lib_def)
  have C_not_B: "hashRefreshToken test_lib ''r3'' \<noteq> hashRefreshToken test_lib ''r2''"
    by (simp add: hashRefreshToken_def test_lib_def)
  have validB: "refreshSchema test_lib ''r2'' = None" by (simp add: test_lib_def)
  have expiry: "getRefreshTokenExpiry test_cfg 1000 = Returns 604801000"
    by (simp add: model_defs)
  have live: "(2000::nat) < 604801000" by simp
  have signer: "\<And>p. generateAccessToken test_lib test_cfg 2000 p \<noteq> Throws"
    by (simp add: generateAccessToken_def test_lib_def)
  from refresh_rotation [OF first ok uniq freshB freshC C_not_B validB expiry live signer,
                         of 1500 "''r9''" 3000 "''r4''" 3000 "''r4''"]
  have again: "refresh test_lib test_cfg 1500 ''r9'' ''r1'' db2 =
                 (json_error 401 ''Invalid refresh token'' ''INVALID_REFRESH_TOKEN'', db2)"
    by blast
  have second: "status (fst (refresh test_lib test_cfg 2000 ''r3'' ''r2'' db2)) = 200"
    by (simp add: model_defs)
  have third: "refresh test_lib test_cfg 3000 ''r4'' ''r2''
       (snd (refresh test_lib test_cfg 2000 ''r3'' ''r2'' db2)) =
     (json_error 401 ''Invalid refresh token'' ''INVALID_REFRESH_TOKEN'',
      snd (refresh test_lib test_cfg 2000 ''r3'' ''r2'' db2))"
    by (simp add: model_defs)
  from first uniq freshB freshC C_not_B validB expiry live again second third
  show ?thesis by blast
qed

section \<open>Refresh: two requests at once\<close>

text \<open>Run alone, the four steps of a request do what \<open>refresh\<close> does.\<close>

lemma refresh_steps:
  "refresh_run l c now rnd tok d =
     (Finished (fst (refresh l c now rnd tok d)), snd (refresh l c now rnd tok d))"
  by (simp add: refresh_run_def refresh_def refresh_step_def issue_tokens_def Let_def
        numeral_eq_Suc RefreshTokenModel_create_def split: option.splits outcome.splits)

text \<open>When the first request finishes before the second starts, the second is refused.\<close>

lemma refresh_one_after_the_other:
  "run_two test_lib test_cfg ''r2'' ''r3''
     [(True, 1000), (True, 1000), (True, 1000), (True, 1000),
      (False, 1004), (False, 1005), (False, 1006), (False, 1007)]
     (Start ''r1'', Start ''r1'', db1) =
   (Finished \<lparr>status = 200,
              body = AuthBody ''Token refreshed successfully'' ''jwt-2'' ''r2'' 1 ''a@x.com''\<rparr>,
    Finished (json_error 401 ''Invalid refresh token'' ''INVALID_REFRESH_TOKEN''),
    db2)"
  by (simp add: model_defs)

text \<open>
  Claim C2 says that of two concurrent \<open>refresh\<close> requests for the same secret exactly
  one succeeds. The handler looks the record up with a \<open>SELECT\<close> and revokes it two
  awaits later with an \<open>UPDATE\<close> that does not ask whether the record is still active.
  On \<open>db1\<close>, two requests for \<open>r1\<close> that take their steps in turn both find the record
  active, both answer 200, and leave the two new records of \<open>r2\<close> and \<open>r3\<close> active.
\<close>

theorem refresh_race:
  "run_two test_lib test_cfg ''r2'' ''r3''
     [(True, 1000), (False, 1001), (True, 1002), (False, 1003),
      (True, 1004), (False, 1005), (True, 1006), (False, 1007)]
     (Start ''r1'', Start ''r1'', db1) =
   (Finished \<lparr>status = 200,
              body = AuthBody ''Token refreshed successfully'' ''jwt-2'' ''r2'' 1 ''a@x.com''\<rparr>,
    Finished \<lparr>status = 200,
              body = AuthBody ''Token refreshed successfully'' ''jwt-2'' ''r3'' 1 ''a@x.com''\<rparr>,
    race_db) \<and>
   findByTokenHash 2000 (hashRefreshToken test_lib ''r2'') race_db \<noteq> None \<and>
   findByTokenHash 2000 (hashRefreshToken test_lib ''r3'') race_db \<noteq> None"
  by (simp add: model_defs)

end
